theory Spec2Isabelle
  imports Main
begin

text \<open>
  A model of the in-process tool server \<open>DirectServer\<close>, of its transport
  \<open>DirectTransport\<close> and of the tool-call handler of the image server, with the
  properties the specification states about them.
\<close>

section \<open>JavaScript values\<close>

text \<open>
  The values that travel through the tool protocol: request parameters, tool arguments,
  tool results and input schemas. \<open>JUndefined\<close> is JavaScript's \<open>undefined\<close>, the value
  of a property that is not there. \<open>JNum n\<close> is the number \<open>n\<close>, an integer; numbers
  that are not integers are outside the model. The model does no arithmetic on numbers
  itself: the coercions and the addition of the JavaScript runtime are parameters (see
  \<open>environment\<close>). An object is its list of properties.
\<close>

datatype json =
    JUndefined
  | JNull
  | JBool bool
  | JNum int
  | JStr string
  | JArr "json list"
  | JObj "(string \<times> json) list"

text \<open>Truthiness, as \<open>v || d\<close> and \<open>if (v)\<close> test it.\<close>

fun truthy :: "json \<Rightarrow> bool" where
  "truthy JUndefined = False"
| "truthy JNull = False"
| "truthy (JBool b) = b"
| "truthy (JNum n) = (n \<noteq> 0)"
| "truthy (JStr s) = (s \<noteq> [])"
| "truthy (JArr xs) = True"
| "truthy (JObj kvs) = True"

definition or_else :: "json \<Rightarrow> json \<Rightarrow> json" where
  \<comment> \<open>\<open>v || d\<close>\<close>
  "or_else v d = (if truthy v then v else d)"

text \<open>
  Property access \<open>v.k\<close> on a truthy value, for the properties the code reads
  (\<open>name\<close>, \<open>arguments\<close>, \<open>numbers\<close>, \<open>paths\<close>): an object yields the property
  or \<open>undefined\<close>; numbers, booleans, strings and arrays have none of them.
\<close>

fun get_prop :: "json \<Rightarrow> string \<Rightarrow> json" where
  "get_prop (JObj kvs) k = (case map_of kvs k of None \<Rightarrow> JUndefined | Some v \<Rightarrow> v)"
| "get_prop v k = JUndefined"

fun isArray :: "json \<Rightarrow> bool" where
  "isArray (JArr xs) = True"
| "isArray v = False"

text \<open>
  The surroundings of the code. First the functions of the JavaScript runtime that the
  code calls and that are not modelled here: \<open>JSON.stringify\<close> (which yields
  \<open>undefined\<close> for \<open>undefined\<close>), the string conversion of a value that is not a
  string, \<open>Number\<close> (\<open>None\<close> is \<open>NaN\<close>), and the addition \<open>a + b\<close> of two
  numbers, which is the addition of IEEE doubles. Then the application's global
  \<open>presenter\<close> object, which is defined outside these files: it is given by its
  properties in the order of \<open>Object.keys\<close>. Of a property value the code reads its
  \<open>typeof\<close>, the name of its constructor and the number of own property names of its
  prototype.
\<close>

datatype presenter_value =
    PObject "string option" nat
  | PNull
  | POther

record environment =
  JSON_stringify :: "json \<Rightarrow> json"
  String_of :: "json \<Rightarrow> string"
  Number_of :: "json \<Rightarrow> int option"
  Number_add :: "int \<Rightarrow> int \<Rightarrow> int"
  presenter :: "(string \<times> presenter_value) list"

definition template_string :: "environment \<Rightarrow> json \<Rightarrow> string" where
  \<comment> \<open>\<open>${v}\<close> inside a template literal\<close>
  "template_string env v = (case v of JStr s \<Rightarrow> s | _ \<Rightarrow> String_of env v)"

text \<open>The decimal digits of a natural number, as a template literal prints it.\<close>

fun decimal :: "nat \<Rightarrow> string" where
  "decimal n =
     (if n < 10 then [char_of (48 + n)] else decimal (n div 10) @ [char_of (48 + n mod 10)])"

section \<open>String literals of the source\<close>

text \<open>Strings are UTF-8 byte lists; the Chinese literals are spelled out in bytes.\<close>

definition msg_invalid_request :: string where
  \<comment> \<open>in English: invalid request\<close>
  "msg_invalid_request = [CHR 0xE6, CHR 0x97, CHR 0xA0, CHR 0xE6, CHR 0x95, CHR 0x88, CHR 0xE7,
     CHR 0x9A, CHR 0x84, CHR 0xE8, CHR 0xAF, CHR 0xB7, CHR 0xE6, CHR 0xB1, CHR 0x82]"

definition msg_tool_missing :: string where
  \<comment> \<open>in English: tool does not exist: \<close>
  "msg_tool_missing = [CHR 0xE5, CHR 0xB7, CHR 0xA5, CHR 0xE5, CHR 0x85, CHR 0xB7, CHR 0xE4, CHR
     0xB8, CHR 0x8D, CHR 0xE5, CHR 0xAD, CHR 0x98, CHR 0xE5, CHR 0x9C, CHR 0xA8] @ '': ''"

definition msg_tool_prefix :: string where
  \<comment> \<open>in English: tool \<close>
  "msg_tool_prefix = [CHR 0xE5, CHR 0xB7, CHR 0xA5, CHR 0xE5, CHR 0x85, CHR 0xB7] @ '' ''"

definition sum_description :: string where
  \<comment> \<open>in English: compute the sum of a group of numbers\<close>
  "sum_description = [CHR 0xE8, CHR 0xAE, CHR 0xA1, CHR 0xE7, CHR 0xAE, CHR 0x97, CHR 0xE4, CHR
     0xB8, CHR 0x80, CHR 0xE7, CHR 0xBB, CHR 0x84, CHR 0xE6, CHR 0x95, CHR 0xB0, CHR 0xE5, CHR
     0xAD, CHR 0x97, CHR 0xE7, CHR 0x9A, CHR 0x84, CHR 0xE6, CHR 0x80, CHR 0xBB, CHR 0xE5, CHR
     0x92, CHR 0x8C]"

definition msg_not_array :: string where
  \<comment> \<open>in English: the parameter must be an array of numbers\<close>
  "msg_not_array = [CHR 0xE5, CHR 0x8F, CHR 0x82, CHR 0xE6, CHR 0x95, CHR 0xB0, CHR 0xE5, CHR
     0xBF, CHR 0x85, CHR 0xE9, CHR 0xA1, CHR 0xBB, CHR 0xE6, CHR 0x98, CHR 0xAF, CHR 0xE4, CHR
     0xB8, CHR 0x80, CHR 0xE4, CHR 0xB8, CHR 0xAA, CHR 0xE6, CHR 0x95, CHR 0xB0, CHR 0xE5, CHR
     0xAD, CHR 0x97, CHR 0xE6, CHR 0x95, CHR 0xB0, CHR 0xE7, CHR 0xBB, CHR 0x84]"

definition msg_non_number :: string where
  \<comment> \<open>in English: the array contains a non-numeric value: \<close>
  "msg_non_number = [CHR 0xE6, CHR 0x95, CHR 0xB0, CHR 0xE7, CHR 0xBB, CHR 0x84, CHR 0xE4, CHR
     0xB8, CHR 0xAD, CHR 0xE5, CHR 0x8C, CHR 0x85, CHR 0xE5, CHR 0x90, CHR 0xAB, CHR 0xE9, CHR
     0x9D, CHR 0x9E, CHR 0xE6, CHR 0x95, CHR 0xB0, CHR 0xE5, CHR 0xAD, CHR 0x97, CHR 0xE5, CHR
     0x80, CHR 0xBC] @ '': ''"

definition numbers_description :: string where
  \<comment> \<open>in English: the array of numbers to sum\<close>
  "numbers_description = [CHR 0xE8, CHR 0xA6, CHR 0x81, CHR 0xE8, CHR 0xAE, CHR 0xA1, CHR 0xE7,
     CHR 0xAE, CHR 0x97, CHR 0xE6, CHR 0x80, CHR 0xBB, CHR 0xE5, CHR 0x92, CHR 0x8C, CHR 0xE7,
     CHR 0x9A, CHR 0x84, CHR 0xE6, CHR 0x95, CHR 0xB0, CHR 0xE5, CHR 0xAD, CHR 0x97, CHR 0xE6,
     CHR 0x95, CHR 0xB0, CHR 0xE7, CHR 0xBB, CHR 0x84]"

definition listPresenters_description :: string where
  \<comment> \<open>in English: get all Presenters available in the current project\<close>
  "listPresenters_description = [CHR 0xE8, CHR 0x8E, CHR 0xB7, CHR 0xE5, CHR 0x8F, CHR 0x96, CHR
     0xE5, CHR 0xBD, CHR 0x93, CHR 0xE5, CHR 0x89, CHR 0x8D, CHR 0xE9, CHR 0xA1, CHR 0xB9, CHR
     0xE7, CHR 0x9B, CHR 0xAE, CHR 0xE4, CHR 0xB8, CHR 0xAD, CHR 0xE6, CHR 0x89, CHR 0x80, CHR
     0xE6, CHR 0x9C, CHR 0x89, CHR 0xE5, CHR 0x8F, CHR 0xAF, CHR 0xE7, CHR 0x94, CHR 0xA8, CHR
     0xE7, CHR 0x9A, CHR 0x84] @ ''Presenter''"

definition msg_missing_method :: string where
  \<comment> \<open>in English: invalid request: method missing\<close>
  "msg_missing_method = [CHR 0xE6, CHR 0x97, CHR 0xA0, CHR 0xE6, CHR 0x95, CHR 0x88, CHR 0xE7,
     CHR 0x9A, CHR 0x84, CHR 0xE8, CHR 0xAF, CHR 0xB7, CHR 0xE6, CHR 0xB1, CHR 0x82, CHR 0xEF,
     CHR 0xBC, CHR 0x9A, CHR 0xE7, CHR 0xBC, CHR 0xBA, CHR 0xE5, CHR 0xB0, CHR 0x91] @
     ''method''"

definition msg_method_missing :: string where
  \<comment> \<open>in English: method does not exist: \<close>
  "msg_method_missing = [CHR 0xE6, CHR 0x96, CHR 0xB9, CHR 0xE6, CHR 0xB3, CHR 0x95, CHR 0xE4,
     CHR 0xB8, CHR 0x8D, CHR 0xE5, CHR 0xAD, CHR 0x98, CHR 0xE5, CHR 0x9C, CHR 0xA8] @ '': ''"

definition msg_already_started :: string where
  \<comment> \<open>in English: DirectTransport already started!\<close>
  "msg_already_started = ''DirectTransport'' @ [CHR 0xE5, CHR 0xB7, CHR 0xB2, CHR 0xE7, CHR
     0xBB, CHR 0x8F, CHR 0xE5, CHR 0x90, CHR 0xAF, CHR 0xE5, CHR 0x8A, CHR 0xA8, CHR 0xEF, CHR
     0xBC, CHR 0x81]"

definition msg_not_connected :: string where
  \<comment> \<open>in English: not connected\<close>
  "msg_not_connected = [CHR 0xE6, CHR 0x9C, CHR 0xAA, CHR 0xE8, CHR 0xBF, CHR 0x9E, CHR 0xE6,
     CHR 0x8E, CHR 0xA5]"

section \<open>Insertion-ordered maps\<close>

text \<open>
  A JavaScript \<open>Map\<close> keeps its keys in insertion order; \<open>set\<close> on a key that is
  present replaces the value and leaves the key where it is.
\<close>

fun Map_set :: "('k \<times> 'v) list \<Rightarrow> 'k \<Rightarrow> 'v \<Rightarrow> ('k \<times> 'v) list" where
  "Map_set [] k v = [(k, v)]"
| "Map_set ((k', v') # m) k v = (if k' = k then (k, v) # m else (k', v') # Map_set m k v)"

definition Map_get :: "('k \<times> 'v) list \<Rightarrow> 'k \<Rightarrow> 'v option" where
  "Map_get m k = map_of m k"

definition Map_keys :: "('k \<times> 'v) list \<Rightarrow> 'k list" where
  "Map_keys m = map fst m"

section \<open>JSON-RPC messages\<close>

datatype rpc_id = IdStr string | IdNum int

record rpc_error =
  code :: int
  message :: string

record tool_info =
  name :: string
  description :: string
  inputSchema :: json

text \<open>
  The two result payloads the server builds: \<open>{content: c}\<close> for a tool call and
  \<open>{tools: [...]}\<close> for the tool list.
\<close>

datatype rpc_result = ContentResult json | ToolsResult "tool_info list"

text \<open>
  A message is an object whose fields may be absent; \<open>'id' in message\<close> is
  \<open>msg_id m \<noteq> None\<close>, and likewise for \<open>method\<close> and \<open>params\<close>.
\<close>

record jsonrpc_message =
  jsonrpc :: string
  msg_id :: "rpc_id option"
  msg_method :: "string option"
  msg_params :: "json option"
  msg_result :: "rpc_result option"
  msg_error :: "rpc_error option"

definition id_or :: "jsonrpc_message \<Rightarrow> string \<Rightarrow> rpc_id" where
  \<comment> \<open>\<open>'id' in message ? message.id : d\<close>\<close>
  "id_or msg d = (case msg_id msg of Some i \<Rightarrow> i | None \<Rightarrow> IdStr d)"

definition error_response :: "rpc_id \<Rightarrow> int \<Rightarrow> string \<Rightarrow> jsonrpc_message" where
  "error_response i c m =
     \<lparr>jsonrpc = ''2.0'', msg_id = Some i, msg_method = None, msg_params = None,
      msg_result = None, msg_error = Some \<lparr>code = c, message = m\<rparr>\<rparr>"

definition result_response :: "rpc_id \<Rightarrow> rpc_result \<Rightarrow> jsonrpc_message" where
  "result_response i r =
     \<lparr>jsonrpc = ''2.0'', msg_id = Some i, msg_method = None, msg_params = None,
      msg_result = Some r, msg_error = None\<rparr>"

text \<open>
  The error codes of JSON-RPC that the specification names: \<open>MethodNotFound\<close> is the
  code \<open>handleRequest\<close> returns for a method it does not know. \<open>InvalidParams\<close> is
  the code JSON-RPC 2.0 reserves for parameters that fail validation; the source never
  uses it.
\<close>

definition MethodNotFound :: int where
  "MethodNotFound = -32601"

definition InvalidParams :: int where
  "InvalidParams = -32602"

section \<open>DirectServer\<close>

text \<open>
  A tool handler is an asynchronous function of the arguments, and a closure. A call of it
  throws or returns a value: \<open>Inl m\<close> is a throw, with \<open>m\<close> the text the server
  extracts from the thrown value (\<open>error instanceof Error ? error.message : String(error)\<close>);
  \<open>Inr r\<close> is the value the promise resolves to. A closure can hold the server it is
  registered on, and what it can then do to that server is call \<open>registerTool\<close>, the one
  public method that writes. So \<open>invoke h args\<close> gives the outcome of the call together
  with the calls \<open>registerTool(name, description, handler, inputSchema)\<close> that the handler
  makes on its server while it runs, in order. A handler completes. (The getter
  \<open>tools\<close> hands out the descriptor array itself; writing into that array from outside
  the class is not modelled.)
\<close>

datatype tool_handler =
  Handler (invoke: "json \<Rightarrow> (string + json) \<times> (string \<times> string \<times> tool_handler \<times> json) list")

record tool_option = tool_info +
  handler :: tool_handler

record DirectServerOptions =
  info :: "string \<times> string"
  options_tools :: "tool_option list option"

text \<open>
  The two message handlers are closures over the server; here they are named, and
  \<open>run_message_handler\<close> below gives their bodies.
\<close>

datatype message_handler = call_tool | list_tools

record DirectServer_state =
  toolHandlers :: "(string \<times> tool_handler) list"
  tools :: "tool_info list"
  messageHandlers :: "(string \<times> message_handler) list"

definition new_DirectServer :: DirectServer_state where
  \<comment> \<open>the field initialisers\<close>
  "new_DirectServer = \<lparr>toolHandlers = [], tools = [], messageHandlers = []\<rparr>"

definition registerTool ::
  "string \<Rightarrow> string \<Rightarrow> tool_handler \<Rightarrow> json \<Rightarrow> DirectServer_state \<Rightarrow> DirectServer_state" where
  "registerTool n d h sch s =
     s\<lparr>toolHandlers := Map_set (toolHandlers s) n h,
       tools := tools s @ [\<lparr>name = n, description = d, inputSchema = sch\<rparr>]\<rparr>"

definition registerTool_calls ::
  "(string \<times> string \<times> tool_handler \<times> json) list \<Rightarrow> DirectServer_state \<Rightarrow> DirectServer_state" where
  \<comment> \<open>the calls of \<open>registerTool\<close> that a running tool handler makes, one after the other\<close>
  "registerTool_calls calls s =
     foldl (\<lambda>s' (n, d, h, sch). registerTool n d h sch s') s calls"

definition registerCallToolHandler :: "DirectServer_state \<Rightarrow> DirectServer_state" where
  "registerCallToolHandler s =
     s\<lparr>messageHandlers := Map_set (messageHandlers s) ''call_tool'' call_tool\<rparr>"

definition registerListToolsHandler :: "DirectServer_state \<Rightarrow> DirectServer_state" where
  "registerListToolsHandler s =
     s\<lparr>messageHandlers := Map_set (messageHandlers s) ''list_tools'' list_tools\<rparr>"

subsection \<open>The handler of \<open>call_tool\<close>\<close>

definition toolHandlers_get :: "DirectServer_state \<Rightarrow> json \<Rightarrow> tool_handler option" where
  \<comment> \<open>\<open>this._toolHandlers.get(name)\<close>: the keys are strings, so only a string is found\<close>
  "toolHandlers_get s nm =
     (case nm of JStr n \<Rightarrow> Map_get (toolHandlers s) n | _ \<Rightarrow> None)"

definition text_content :: "json \<Rightarrow> json" where
  \<comment> \<open>\<open>{ type: 'text', text: t }\<close>\<close>
  "text_content t = JObj [(''type'', JStr ''text''), (''text'', t)]"

definition call_tool_handler ::
  "environment \<Rightarrow> DirectServer_state \<Rightarrow> jsonrpc_message \<Rightarrow>
   jsonrpc_message \<times> DirectServer_state" where
  "call_tool_handler env s msg =
     (case (msg_method msg, msg_params msg) of
        (Some method, Some p) \<Rightarrow>
          (let params = or_else p (JObj []);
               nm = get_prop params ''name'';
               args = or_else (get_prop params ''arguments'') (JObj [])
           in case toolHandlers_get s nm of
                None \<Rightarrow>
                  (error_response (id_or msg ''error'') (-32000)
                     (msg_tool_missing @ template_string env nm), s)
              | Some h \<Rightarrow>
                  (case invoke h args of
                     (Inr result, calls) \<Rightarrow>
                       (result_response (id_or msg ''call_tool'')
                          (ContentResult
                             (if isArray result then result
                              else JArr [text_content (JSON_stringify env result)])),
                        registerTool_calls calls s)
                   | (Inl m, calls) \<Rightarrow>
                       (error_response (id_or msg ''error'') (-32000) m,
                        registerTool_calls calls s)))
      | _ \<Rightarrow> (error_response (id_or msg ''null'') (-32600) msg_invalid_request, s))"

subsection \<open>The handler of \<open>list_tools\<close>\<close>

definition default_inputSchema :: json where
  "default_inputSchema =
     JObj [(''type'', JStr ''object''), (''properties'', JObj []), (''required'', JArr [])]"

definition describe_tool :: "tool_info list \<Rightarrow> string \<Rightarrow> tool_info" where
  "describe_tool ts n =
     (case find (\<lambda>t. name t = n) ts of
        None \<Rightarrow>
          \<lparr>name = n, description = msg_tool_prefix @ n, inputSchema = default_inputSchema\<rparr>
      | Some tool \<Rightarrow>
          \<lparr>name = n,
           description =
             (if description tool \<noteq> [] then description tool else msg_tool_prefix @ n),
           inputSchema = or_else (inputSchema tool) default_inputSchema\<rparr>)"

definition list_tools_handler :: "DirectServer_state \<Rightarrow> jsonrpc_message \<Rightarrow> jsonrpc_message" where
  "list_tools_handler s msg =
     (case msg_method msg of
        None \<Rightarrow> error_response (id_or msg ''null'') (-32600) msg_invalid_request
      | Some method \<Rightarrow>
          result_response (id_or msg ''list_tools'')
            (ToolsResult (map (describe_tool (tools s)) (Map_keys (toolHandlers s)))))"

fun run_message_handler ::
  "environment \<Rightarrow> DirectServer_state \<Rightarrow> message_handler \<Rightarrow> jsonrpc_message \<Rightarrow>
   jsonrpc_message \<times> DirectServer_state" where
  "run_message_handler env s call_tool msg = call_tool_handler env s msg"
| "run_message_handler env s list_tools msg = (list_tools_handler s msg, s)"

subsection \<open>\<open>handleRequest\<close>\<close>

text \<open>
  The method returns the response; the server it returns beside it is the state after the
  call. The code of \<open>handleRequest\<close> and of the two message handlers reads the registry
  and never assigns to it, so the only writes are those of a tool handler that runs.
\<close>

definition handleRequest ::
  "environment \<Rightarrow> DirectServer_state \<Rightarrow> jsonrpc_message \<Rightarrow> jsonrpc_message \<times> DirectServer_state" where
  "handleRequest env s msg =
     (case msg_method msg of
        None \<Rightarrow> (error_response (id_or msg ''error'') (-32600) msg_missing_method, s)
      | Some method \<Rightarrow>
          (case Map_get (messageHandlers s) method of
             Some h \<Rightarrow> run_message_handler env s h msg
           | None \<Rightarrow>
               (error_response (id_or msg ''error'') (-32601) (msg_method_missing @ method), s)))"

subsection \<open>The built-in tools\<close>

fun sum_reduce :: "environment \<Rightarrow> int \<Rightarrow> json list \<Rightarrow> string + int" where
  "sum_reduce env acc [] = Inr acc"
| "sum_reduce env acc (cur # rest) =
     (case Number_of env cur of
        None \<Rightarrow> Inl (msg_non_number @ template_string env cur)
      | Some num \<Rightarrow> sum_reduce env (Number_add env acc num) rest)"

definition sum_handler :: "environment \<Rightarrow> tool_handler" where
  "sum_handler env =
     Handler (\<lambda>args.
       (case get_prop args ''numbers'' of
          JArr numbers \<Rightarrow>
            (case sum_reduce env 0 numbers of
               Inl m \<Rightarrow> Inl m
             | Inr sm \<Rightarrow> Inr (JObj [(''sum'', JNum sm)]))
        | _ \<Rightarrow> Inl msg_not_array,
        []))"

definition sum_inputSchema :: json where
  "sum_inputSchema =
     JObj [(''type'', JStr ''object''),
           (''properties'',
            JObj [(''numbers'',
                   JObj [(''type'', JStr ''array''),
                         (''items'', JObj [(''type'', JStr ''number'')]),
                         (''description'', JStr numbers_description)])]),
           (''required'', JArr [JStr ''numbers''])]"

definition startsWith_underscore :: "string \<Rightarrow> bool" where
  "startsWith_underscore k = (case k of [] \<Rightarrow> False | c # cs \<Rightarrow> c = CHR ''_'')"

fun typeof_object :: "presenter_value \<Rightarrow> bool" where
  "typeof_object (PObject c n) = True"
| "typeof_object PNull = True"
| "typeof_object POther = False"

fun presenter_entry :: "string \<times> presenter_value \<Rightarrow> json" where
  "presenter_entry (k, PObject c n) =
     JObj [(''name'', JStr k),
           (''type'',
            JStr (case c of None \<Rightarrow> ''object''
                  | Some cn \<Rightarrow> if cn \<noteq> [] then cn else ''object'')),
           (''methodCount'', JNum (int n))]"
| "presenter_entry (k, v) =
     JObj [(''name'', JStr k), (''type'', JStr ''object''), (''methodCount'', JNum 0)]"

definition listPresenters_handler :: "environment \<Rightarrow> tool_handler" where
  "listPresenters_handler env =
     Handler (\<lambda>args.
       (Inr (JObj [(''presenters'',
                   JArr (map presenter_entry
                           (filter (\<lambda>kv. \<not> startsWith_underscore (fst kv) \<and>
                                         typeof_object (snd kv))
                              (presenter env))))]),
        []))"

definition listPresenters_inputSchema :: json where
  "listPresenters_inputSchema =
     JObj [(''type'', JStr ''object''), (''properties'', JObj []), (''required'', JArr [])]"

definition registerBuiltinTools :: "environment \<Rightarrow> DirectServer_state \<Rightarrow> DirectServer_state" where
  "registerBuiltinTools env s =
     registerTool ''listPresenters'' listPresenters_description (listPresenters_handler env)
       listPresenters_inputSchema
       (registerTool ''sum'' sum_description (sum_handler env) sum_inputSchema s)"

subsection \<open>The constructor\<close>

definition registerTools :: "tool_option list \<Rightarrow> DirectServer_state \<Rightarrow> DirectServer_state" where
  \<comment> \<open>\<open>tools.forEach((tool) => this.registerTool(...))\<close>\<close>
  "registerTools ts s =
     foldl (\<lambda>s' tool.
              registerTool (name tool) (description tool) (handler tool) (inputSchema tool) s')
           s ts"

definition DirectServer :: "environment \<Rightarrow> DirectServerOptions \<Rightarrow> DirectServer_state" where
  "DirectServer env options =
     (let s0 = registerListToolsHandler (registerCallToolHandler new_DirectServer);
          s1 = (case options_tools options of
                  None \<Rightarrow> s0
                | Some ts \<Rightarrow> if length ts > 0 then registerTools ts s0 else s0)
      in registerBuiltinTools env s1)"

section \<open>Servers and requests to reason about\<close>

text \<open>
  \<open>empty_server\<close> is the server as the constructor has it once the two message
  handlers are in place and no tool is registered yet. \<open>server_after\<close> is a constructed
  server after later calls of \<open>registerTool\<close>, the only operation that writes to the
  registry; every state a \<open>DirectServer\<close> can be in has this form.
\<close>

definition empty_server :: DirectServer_state where
  "empty_server = registerListToolsHandler (registerCallToolHandler new_DirectServer)"

definition server_after ::
  "environment \<Rightarrow> DirectServerOptions \<Rightarrow> tool_option list \<Rightarrow> DirectServer_state" where
  "server_after env options regs = registerTools regs (DirectServer env options)"

definition info_of :: "tool_option \<Rightarrow> tool_info" where
  "info_of t = \<lparr>name = name t, description = description t, inputSchema = inputSchema t\<rparr>"

definition builtin_tools :: "environment \<Rightarrow> tool_option list" where
  \<comment> \<open>the two registrations of \<open>registerBuiltinTools\<close>, as a list\<close>
  "builtin_tools env =
     [\<lparr>name = ''sum'', description = sum_description, inputSchema = sum_inputSchema,
       handler = sum_handler env\<rparr>,
      \<lparr>name = ''listPresenters'', description = listPresenters_description,
       inputSchema = listPresenters_inputSchema, handler = listPresenters_handler env\<rparr>]"

definition constructor_tools :: "DirectServerOptions \<Rightarrow> tool_option list" where
  "constructor_tools options = (case options_tools options of None \<Rightarrow> [] | Some ts \<Rightarrow> ts)"

definition request :: "rpc_id \<Rightarrow> string \<Rightarrow> json \<Rightarrow> jsonrpc_message" where
  \<comment> \<open>\<open>{ jsonrpc: '2.0', id: i, method: m, params: p }\<close>\<close>
  "request i m p =
     \<lparr>jsonrpc = ''2.0'', msg_id = Some i, msg_method = Some m, msg_params = Some p,
      msg_result = None, msg_error = None\<rparr>"

definition call_tool_request :: "rpc_id \<Rightarrow> string \<Rightarrow> json \<Rightarrow> jsonrpc_message" where
  "call_tool_request i n args =
     request i ''call_tool'' (JObj [(''name'', JStr n), (''arguments'', args)])"

definition response_code :: "jsonrpc_message \<Rightarrow> int option" where
  "response_code r = map_option code (msg_error r)"

subsection \<open>A sample runtime\<close>

text \<open>
  The examples below need an environment. Its runtime functions follow JavaScript on the
  values of the model: \<open>String\<close>, \<open>Number\<close>, \<open>JSON.stringify\<close> and the addition of
  doubles, for integers of fewer than 22 digits (which print in plain decimal) and strings
  of bytes. \<open>Number\<close> of a string reads an optionally signed run of decimal digits
  between ASCII white space; a numeric string with a fraction, an exponent or a radix
  prefix has in general no integer to stand for it and is \<open>NaN\<close> here. A sum is
  rounded to 53 significant bits; the range of a double is not exceeded.
\<close>

definition show_int :: "int \<Rightarrow> string" where
  "show_int n = (if n < 0 then ''-'' @ decimal (nat (- n)) else decimal (nat n))"

fun join_comma :: "string list \<Rightarrow> string" where
  "join_comma [] = []"
| "join_comma [x] = x"
| "join_comma (x # y # ys) = x @ '','' @ join_comma (y # ys)"

fun js_String :: "json \<Rightarrow> string" where
  "js_String JUndefined = ''undefined''"
| "js_String JNull = ''null''"
| "js_String (JBool b) = (if b then ''true'' else ''false'')"
| "js_String (JNum n) = show_int n"
| "js_String (JStr s) = s"
| "js_String (JArr xs) =
     join_comma (map (\<lambda>x. if x = JUndefined \<or> x = JNull then [] else js_String x) xs)"
| "js_String (JObj kvs) = ''[object Object]''"

definition is_space :: "char \<Rightarrow> bool" where
  "is_space c = (c \<in> set [CHR '' '', CHR 0x09, CHR 0x0A, CHR 0x0B, CHR 0x0C, CHR 0x0D])"

definition trim :: "string \<Rightarrow> string" where
  "trim s = rev (dropWhile is_space (rev (dropWhile is_space s)))"

fun digits_value :: "nat \<Rightarrow> string \<Rightarrow> nat option" where
  "digits_value acc [] = Some acc"
| "digits_value acc (c # cs) =
     (if 48 \<le> (of_char c :: nat) \<and> (of_char c :: nat) \<le> 57
      then digits_value (10 * acc + (of_char c - 48)) cs else None)"

definition string_to_number :: "string \<Rightarrow> int option" where
  "string_to_number s =
     (case trim s of
        [] \<Rightarrow> Some 0
      | c # cs \<Rightarrow>
          if c = CHR ''-'' \<and> cs \<noteq> [] then map_option (\<lambda>n. - int n) (digits_value 0 cs)
          else if c = CHR ''+'' \<and> cs \<noteq> [] then map_option int (digits_value 0 cs)
          else map_option int (digits_value 0 (c # cs)))"

fun js_Number :: "json \<Rightarrow> int option" where
  "js_Number JUndefined = None"
| "js_Number JNull = Some 0"
| "js_Number (JBool b) = Some (if b then 1 else 0)"
| "js_Number (JNum n) = Some n"
| "js_Number (JStr s) = string_to_number s"
| "js_Number (JArr xs) = string_to_number (js_String (JArr xs))"
| "js_Number (JObj kvs) = None"

function bit_length :: "int \<Rightarrow> nat" where
  "bit_length n = (if n \<le> 0 then 0 else Suc (bit_length (n div 2)))"
  by pat_completeness auto
termination
  by (relation "measure nat") auto

definition round_double :: "int \<Rightarrow> int" where
  \<comment> \<open>the nearest integer with at most 53 significant bits, ties to the even one\<close>
  "round_double n =
     (let m = \<bar>n\<bar>;
          e = bit_length m - 53;
          q = m div 2 ^ e;
          r = m mod 2 ^ e;
          q' = (if 2 ^ e < 2 * r \<or> (2 * r = 2 ^ e \<and> odd q) then q + 1 else q)
      in sgn n * (q' * 2 ^ e))"

definition hex_digit :: "nat \<Rightarrow> char" where
  "hex_digit d = (if d < 10 then char_of (48 + d) else char_of (87 + d))"

definition json_escape :: "char \<Rightarrow> string" where
  "json_escape c =
     (if c = CHR 0x22 then [CHR 0x5C, CHR 0x22]
      else if c = CHR 0x5C then [CHR 0x5C, CHR 0x5C]
      else if c = CHR 0x08 then [CHR 0x5C, CHR ''b'']
      else if c = CHR 0x09 then [CHR 0x5C, CHR ''t'']
      else if c = CHR 0x0A then [CHR 0x5C, CHR ''n'']
      else if c = CHR 0x0C then [CHR 0x5C, CHR ''f'']
      else if c = CHR 0x0D then [CHR 0x5C, CHR ''r'']
      else if (of_char c :: nat) < 32
        then [CHR 0x5C, CHR ''u'', CHR ''0'', CHR ''0'',
              hex_digit (of_char c div 16), hex_digit (of_char c mod 16)]
      else [c])"

definition json_quote :: "string \<Rightarrow> string" where
  "json_quote s = [CHR 0x22] @ concat (map json_escape s) @ [CHR 0x22]"

fun js_JSON_stringify :: "json \<Rightarrow> json" where
  "js_JSON_stringify JUndefined = JUndefined"
| "js_JSON_stringify JNull = JStr ''null''"
| "js_JSON_stringify (JBool b) = JStr (if b then ''true'' else ''false'')"
| "js_JSON_stringify (JNum n) = JStr (show_int n)"
| "js_JSON_stringify (JStr s) = JStr (json_quote s)"
| "js_JSON_stringify (JArr xs) =
     JStr (''['' @
           join_comma (map (\<lambda>x. case js_JSON_stringify x of JStr t \<Rightarrow> t | _ \<Rightarrow> ''null'') xs) @
           '']'')"
| "js_JSON_stringify (JObj kvs) =
     JStr (''{'' @
           join_comma
             (concat (map (\<lambda>kv. case js_JSON_stringify (snd kv) of
                                   JStr t \<Rightarrow> [json_quote (fst kv) @ '':'' @ t]
                                 | _ \<Rightarrow> [])
                        kvs)) @
           ''}'')"

text \<open>A sample environment and the server of the repository's own example.\<close>

definition sample_environment :: environment where
  "sample_environment =
     \<lparr>JSON_stringify = js_JSON_stringify,
      String_of = js_String,
      Number_of = js_Number,
      Number_add = (\<lambda>a b. round_double (a + b)),
      presenter = [(''configPresenter'', PObject (Some ''ConfigPresenter'') 12),
                   (''_hidden'', PObject None 0), (''version'', POther)]\<rparr>"

definition example_options :: DirectServerOptions where
  "example_options = \<lparr>info = (''direct-server-example'', ''1.0.0''), options_tools = None\<rparr>"

definition example_server :: DirectServer_state where
  "example_server = DirectServer sample_environment example_options"

definition list_tools_request :: "rpc_id \<Rightarrow> jsonrpc_message" where
  "list_tools_request i = request i ''list_tools'' (JObj [])"

definition listed_tools :: "jsonrpc_message \<Rightarrow> tool_info list" where
  \<comment> \<open>the descriptors in a response to \<open>list_tools\<close>\<close>
  "listed_tools r = (case msg_result r of Some (ToolsResult ds) \<Rightarrow> ds | _ \<Rightarrow> [])"

text \<open>Two tools a caller might register: one with a required field, one named as a built-in.\<close>

definition greet_tool :: tool_option where
  "greet_tool =
     \<lparr>name = ''greet'', description = ''Greets somebody'',
      inputSchema =
        JObj [(''type'', JStr ''object''),
              (''properties'', JObj [(''who'', JObj [(''type'', JStr ''string'')])]),
              (''required'', JArr [JStr ''who''])],
      handler = Handler (\<lambda>args. (Inr (JArr [JStr ''hello'']), []))\<rparr>"

definition second_sum :: tool_option where
  "second_sum =
     \<lparr>name = ''sum'', description = ''Adds numbers (second registration)'',
      inputSchema = JObj [(''type'', JStr ''object'')],
      handler = Handler (\<lambda>args. (Inr (JArr [JStr ''second'']), []))\<rparr>"


text \<open>
  The registrations that give a server its listing: of each name the first one, in the
  order of the registrations; and the descriptor that \<open>list_tools\<close> is to report for
  such a registration, with the placeholders the code puts for an empty description and a
  falsy schema.
\<close>

fun first_registrations_from :: "string list \<Rightarrow> tool_option list \<Rightarrow> tool_option list" where
  "first_registrations_from seen [] = []"
| "first_registrations_from seen (t # ts) =
     (if name t \<in> set seen then first_registrations_from seen ts
      else t # first_registrations_from (name t # seen) ts)"

definition first_registrations :: "tool_option list \<Rightarrow> tool_option list" where
  "first_registrations regs = first_registrations_from [] regs"

definition listed_of :: "tool_option \<Rightarrow> tool_info" where
  "listed_of t =
     \<lparr>name = name t,
      description = (if description t = [] then msg_tool_prefix @ name t else description t),
      inputSchema = (if truthy (inputSchema t) then inputSchema t else default_inputSchema)\<rparr>"

section \<open>DirectTransport\<close>

text \<open>
  A call of an asynchronous method either returns or throws (its promise rejects) with an
  error text. The two callbacks of the options return promises: \<open>handleMessage\<close> yields
  a response or fails, and \<open>onClose\<close>, when given, is described by how a call of it
  ends. The three callback properties \<open>onclose\<close>, \<open>onerror\<close> and \<open>onmessage\<close> are
  observers: the transport knows whether each is set, and every call of a callback is written
  to the trace, in order. The emitter holds only listeners for \<open>response\<close>, each of which
  passes the message to \<open>onmessage\<close>, so the state keeps their number.
\<close>

datatype outcome = Returns | Throws string

record DirectTransportOptions =
  handleMessage :: "jsonrpc_message \<Rightarrow> string + jsonrpc_message"
  onClose :: "outcome option"

datatype callback_call =
    onClose_call
  | onclose_call
  | onerror_call string
  | onmessage_call jsonrpc_message

record DirectTransport_state =
  isConnected :: bool
  listeners :: nat
  has_onclose :: bool
  has_onerror :: bool
  has_onmessage :: bool
  trace :: "callback_call list"

definition new_DirectTransport :: DirectTransport_state where
  "new_DirectTransport =
     \<lparr>isConnected = False, listeners = 0, has_onclose = False, has_onerror = False,
      has_onmessage = False, trace = []\<rparr>"

definition call_onclose :: "DirectTransport_state \<Rightarrow> DirectTransport_state" where
  \<comment> \<open>\<open>this.onclose?.()\<close>\<close>
  "call_onclose t = (if has_onclose t then t\<lparr>trace := trace t @ [onclose_call]\<rparr> else t)"

definition call_onerror :: "string \<Rightarrow> DirectTransport_state \<Rightarrow> DirectTransport_state" where
  \<comment> \<open>\<open>this.onerror?.(error)\<close>\<close>
  "call_onerror e t = (if has_onerror t then t\<lparr>trace := trace t @ [onerror_call e]\<rparr> else t)"

definition emit_response :: "jsonrpc_message \<Rightarrow> DirectTransport_state \<Rightarrow> DirectTransport_state" where
  \<comment> \<open>\<open>this._emitter.emit('response', response)\<close>: every listener calls \<open>this.onmessage?.(message)\<close>\<close>
  "emit_response r t =
     (if has_onmessage t
      then t\<lparr>trace := trace t @ replicate (listeners t) (onmessage_call r)\<rparr> else t)"

definition start :: "DirectTransport_state \<Rightarrow> outcome \<times> DirectTransport_state" where
  "start t =
     (if isConnected t then (Throws msg_already_started, t)
      else (Returns, t\<lparr>isConnected := True, listeners := listeners t + 1\<rparr>))"

definition close ::
  "DirectTransportOptions \<Rightarrow> DirectTransport_state \<Rightarrow> outcome \<times> DirectTransport_state" where
  "close opts t =
     (if \<not> isConnected t then (Returns, t)
      else
        (let t1 = t\<lparr>isConnected := False, listeners := 0\<rparr>
         in case onClose opts of
              None \<Rightarrow> (Returns, call_onclose t1)
            | Some ending \<Rightarrow>
                (let t2 = t1\<lparr>trace := trace t1 @ [onClose_call]\<rparr>
                 in case ending of
                      Throws e \<Rightarrow> (Throws e, t2)
                    | Returns \<Rightarrow> (Returns, call_onclose t2))))"

definition send ::
  "DirectTransportOptions \<Rightarrow> DirectTransport_state \<Rightarrow> jsonrpc_message \<Rightarrow>
   outcome \<times> DirectTransport_state" where
  "send opts t msg =
     (if \<not> isConnected t then (Throws msg_not_connected, t)
      else
        (case handleMessage opts msg of
           Inr response \<Rightarrow> (Returns, emit_response response t)
         | Inl e \<Rightarrow> (Returns, call_onerror e t)))"

text \<open>
  The transport a server creates for itself, bound to the server in state \<open>s\<close>; it
  passes on the response and does not follow the server's state.
\<close>

definition createDirectTransport ::
  "environment \<Rightarrow> DirectServer_state \<Rightarrow> DirectTransportOptions" where
  "createDirectTransport env s =
     \<lparr>handleMessage = (\<lambda>msg. Inr (fst (handleRequest env s msg))), onClose = Some Returns\<rparr>"

text \<open>Options whose message handler fails on every message, and a client's callbacks.\<close>

definition failing_options :: DirectTransportOptions where
  "failing_options = \<lparr>handleMessage = (\<lambda>msg. Inl ''handler failed''), onClose = Some Returns\<rparr>"

definition with_callbacks :: "DirectTransport_state \<Rightarrow> DirectTransport_state" where
  \<comment> \<open>a client sets \<open>onclose\<close>, \<open>onerror\<close> and \<open>onmessage\<close> when it connects\<close>
  "with_callbacks t = t\<lparr>has_onclose := True, has_onerror := True, has_onmessage := True\<rparr>"

section \<open>ImageServer\<close>






subsection \<open>Argument schemas\<close>






subsection \<open>Uploading\<close>





subsection \<open>Querying the model\<close>



subsection \<open>The batch tools\<close>








subsection \<open>The handler of tool calls\<close>







section \<open>The registry\<close>

lemma registerTools_Nil: "registerTools [] s = s"
  by (simp add: registerTools_def)

lemma registerTools_snoc:
  "registerTools (ts @ [t]) s =
     registerTool (name t) (description t) (handler t) (inputSchema t) (registerTools ts s)"
  by (simp add: registerTools_def)

lemma registerTools_append: "registerTools (ts @ us) s = registerTools us (registerTools ts s)"
  by (simp add: registerTools_def)

lemma DirectServer_registrations:
  "DirectServer env options =
     registerTools (constructor_tools options @ builtin_tools env) empty_server"
  by (simp add: DirectServer_def Let_def constructor_tools_def builtin_tools_def
        registerTools_append registerBuiltinTools_def empty_server_def registerTools_def
        split: option.split)

lemma server_after_registrations:
  "server_after env options regs =
     registerTools (constructor_tools options @ builtin_tools env @ regs) empty_server"
  by (simp add: server_after_def DirectServer_registrations registerTools_append)

lemma messageHandlers_registerTool:
  "messageHandlers (registerTool n d h sch s) = messageHandlers s"
  by (simp add: registerTool_def)

lemma messageHandlers_registerTools:
  "messageHandlers (registerTools ts s) = messageHandlers s"
  by (induction ts rule: rev_induct)
     (simp_all add: registerTools_Nil registerTools_snoc messageHandlers_registerTool)

lemma messageHandlers_empty_server:
  "messageHandlers empty_server = [(''call_tool'', call_tool), (''list_tools'', list_tools)]"
  by (simp add: empty_server_def registerListToolsHandler_def registerCallToolHandler_def
        new_DirectServer_def)

lemma messageHandlers_server_after:
  "messageHandlers (server_after env options regs) =
     [(''call_tool'', call_tool), (''list_tools'', list_tools)]"
  by (simp add: server_after_registrations messageHandlers_registerTools
        messageHandlers_empty_server)

lemma tools_registerTools:
  "tools (registerTools ts s) = tools s @ map info_of ts"
  by (induction ts rule: rev_induct)
     (simp_all add: registerTools_Nil registerTools_snoc registerTool_def info_of_def)

lemma map_of_Map_set: "map_of (Map_set m k v) = (map_of m)(k \<mapsto> v)"
  by (induction m k v rule: Map_set.induct) auto

lemma keys_Map_set:
  "map fst (Map_set m k v) = (if k \<in> set (map fst m) then map fst m else map fst m @ [k])"
  by (induction m k v rule: Map_set.induct) auto

lemma keys_registerTools:
  "Map_keys (toolHandlers (registerTools ts empty_server)) = rev (remdups (rev (map name ts)))"
proof (induction ts rule: rev_induct)
  case Nil
  show ?case
    by (simp add: registerTools_Nil Map_keys_def empty_server_def
          registerListToolsHandler_def registerCallToolHandler_def new_DirectServer_def)
next
  case (snoc t ts)
  have "set (map fst (toolHandlers (registerTools ts empty_server))) = set (map name ts)"
    using snoc.IH by (simp add: Map_keys_def)
  then show ?case
    using snoc.IH
    by (simp add: registerTools_snoc registerTool_def Map_keys_def keys_Map_set)
qed

lemma get_registerTools:
  "Map_get (toolHandlers (registerTools ts empty_server)) n =
     map_option handler (find (\<lambda>t. name t = n) (rev ts))"
proof (induction ts rule: rev_induct)
  case Nil
  show ?case
    by (simp add: registerTools_Nil Map_get_def empty_server_def
          registerListToolsHandler_def registerCallToolHandler_def new_DirectServer_def)
next
  case (snoc t ts)
  then show ?case
    by (simp add: registerTools_snoc registerTool_def Map_get_def map_of_Map_set)
qed

lemma handleRequest_call_tool:
  assumes "msg_method msg = Some ''call_tool''"
  shows "handleRequest env (server_after env options regs) msg =
           call_tool_handler env (server_after env options regs) msg"
  using assms by (simp add: handleRequest_def Map_get_def messageHandlers_server_after)

lemma handleRequest_list_tools:
  assumes "msg_method msg = Some ''list_tools''"
  shows "handleRequest env (server_after env options regs) msg =
           (list_tools_handler (server_after env options regs) msg,
            server_after env options regs)"
  using assms by (simp add: handleRequest_def Map_get_def messageHandlers_server_after)

lemma example_server_after:
  "example_server = server_after sample_environment example_options []"
  by (simp add: example_server_def server_after_def registerTools_Nil)

section \<open>Error responses of \<open>call_tool\<close>\<close>

text \<open>
  C1, as the specification states it, fails. On the example server no tool is called
  \<open>nope\<close>; a \<open>call_tool\<close> request for it is answered with the error code -32000, the
  code of every failed tool call, and not with \<open>MethodNotFound\<close> (-32601), which is what
  a request with an unknown method gets.
\<close>

theorem C1_unknown_tool_not_MethodNotFound:
  "toolHandlers_get example_server (JStr ''nope'') = None \<and>
   response_code (fst (handleRequest sample_environment example_server
                         (call_tool_request (IdNum 1) ''nope'' (JObj [])))) = Some (- 32000) \<and>
   response_code (fst (handleRequest sample_environment example_server
                         (call_tool_request (IdNum 1) ''nope'' (JObj [])))) \<noteq> Some MethodNotFound \<and>
   response_code (fst (handleRequest sample_environment example_server
                         (request (IdNum 2) ''no_such_method'' (JObj [])))) = Some MethodNotFound"
  by (simp add: example_server_def example_options_def DirectServer_def Let_def
        registerBuiltinTools_def registerTool_def registerListToolsHandler_def
        registerCallToolHandler_def new_DirectServer_def toolHandlers_get_def Map_get_def
        handleRequest_def call_tool_request_def request_def call_tool_handler_def or_else_def
        response_code_def error_response_def MethodNotFound_def template_string_def id_or_def)

text \<open>
  C1, amended: for every server and every \<open>call_tool\<close> request that carries \<open>params\<close>
  and names a tool that is not in the tool-handler registry, the response is an
  ErrorResponse with the request's id, the code -32000 and the message
  "tool does not exist: " followed by the name, whatever the arguments are. (The name is the
  \<open>name\<close> property of the parameters; a name that is not a string is never registered.)
\<close>

theorem C1_unknown_tool_error:
  assumes "msg_method msg = Some ''call_tool''"
    and "msg_params msg = Some p"
    and "nm = get_prop (or_else p (JObj [])) ''name''"
    and "toolHandlers_get (server_after env options regs) nm = None"
  shows "fst (handleRequest env (server_after env options regs) msg) =
           error_response (id_or msg ''error'') (- 32000)
             (msg_tool_missing @ template_string env nm)"
  using assms
  by (simp add: handleRequest_call_tool call_tool_handler_def Let_def)

theorem C1_unknown_tool_error_witness:
  "fst (handleRequest sample_environment (server_after sample_environment example_options [])
          (call_tool_request (IdNum 1) ''nope'' (JArr [JNum 7]))) =
     error_response (IdNum 1) (- 32000) (msg_tool_missing @ ''nope'')"
proof -
  let ?msg = "call_tool_request (IdNum 1) ''nope'' (JArr [JNum 7])"
  let ?p = "JObj [(''name'', JStr ''nope''), (''arguments'', JArr [JNum 7])]"
  have m: "msg_method ?msg = Some ''call_tool''"
    by (simp add: call_tool_request_def request_def)
  have p: "msg_params ?msg = Some ?p"
    by (simp add: call_tool_request_def request_def)
  have n: "JStr ''nope'' = get_prop (or_else ?p (JObj [])) ''name''"
    by (simp add: or_else_def)
  have g: "toolHandlers_get (server_after sample_environment example_options [])
             (JStr ''nope'') = None"
    by (simp add: server_after_registrations get_registerTools toolHandlers_get_def
          constructor_tools_def example_options_def builtin_tools_def)
  show ?thesis
    using C1_unknown_tool_error [OF m p n g]
    by (simp add: template_string_def id_or_def call_tool_request_def request_def)
qed

lemma example_unfold:
  "server_after sample_environment example_options regs =
     registerTools (builtin_tools sample_environment @ regs) empty_server"
  by (simp add: server_after_registrations constructor_tools_def example_options_def)

lemma get_example_server:
  "toolHandlers_get (server_after sample_environment example_options regs) (JStr n) =
     map_option handler
       (find (\<lambda>t. name t = n) (rev (builtin_tools sample_environment @ regs)))"
  by (simp only: example_unfold get_registerTools toolHandlers_get_def json.case)

lemma call_tool_request_fields:
  "msg_method (call_tool_request i n args) = Some ''call_tool''"
  "msg_params (call_tool_request i n args) =
     Some (JObj [(''name'', JStr n), (''arguments'', args)])"
  "msg_id (call_tool_request i n args) = Some i"
  by (simp_all add: call_tool_request_def request_def)

lemma list_tools_request_fields:
  "msg_method (list_tools_request i) = Some ''list_tools''"
  "msg_id (list_tools_request i) = Some i"
  by (simp_all add: list_tools_request_def request_def)

lemma call_tool_handler_string_name:
  "call_tool_handler env s (call_tool_request i n args) =
     (case toolHandlers_get s (JStr n) of
        None \<Rightarrow> (error_response i (- 32000) (msg_tool_missing @ n), s)
      | Some h \<Rightarrow>
          (case fst (invoke h (or_else args (JObj []))) of
             Inl m \<Rightarrow> error_response i (- 32000) m
           | Inr result \<Rightarrow>
               result_response i
                 (ContentResult
                    (if isArray result then result
                     else JArr [text_content (JSON_stringify env result)])),
           registerTool_calls (snd (invoke h (or_else args (JObj [])))) s))"
  by (simp add: call_tool_handler_def call_tool_request_fields or_else_def id_or_def
        template_string_def Let_def split: option.split sum.split prod.split)

text \<open>
  C2, as the specification states it, fails: the server never compares the arguments with
  the input schema. The built-in \<open>sum\<close> declares \<open>numbers\<close> as required; called
  without it, its handler runs, throws its own message ("the parameter must be an array
  of numbers"), and the response carries that message under the code -32000, not
  \<open>InvalidParams\<close>. A tool that declares a required field and does not look at its
  arguments answers such a call with a success response.
\<close>

theorem C2_missing_required_field_not_InvalidParams:
  "invoke (sum_handler sample_environment) (JObj []) = (Inl msg_not_array, []) \<and>
   fst (handleRequest sample_environment example_server
          (call_tool_request (IdNum 1) ''sum'' (JObj []))) =
     error_response (IdNum 1) (- 32000) msg_not_array \<and>
   response_code (fst (handleRequest sample_environment example_server
                         (call_tool_request (IdNum 1) ''sum'' (JObj [])))) \<noteq> Some InvalidParams \<and>
   fst (handleRequest sample_environment
          (server_after sample_environment example_options [greet_tool])
          (call_tool_request (IdNum 2) ''greet'' (JObj []))) =
     result_response (IdNum 2) (ContentResult (JArr [JStr ''hello'']))"
proof -
  have h: "invoke (sum_handler sample_environment) (JObj []) = (Inl msg_not_array, [])"
    by (simp add: sum_handler_def)
  have g1: "toolHandlers_get example_server (JStr ''sum'') =
              Some (sum_handler sample_environment)"
    by (simp add: example_server_after get_example_server builtin_tools_def)
  have r1: "fst (handleRequest sample_environment example_server
                   (call_tool_request (IdNum 1) ''sum'' (JObj []))) =
              error_response (IdNum 1) (- 32000) msg_not_array"
    by (simp add: example_server_after handleRequest_call_tool call_tool_request_fields)
       (simp add: call_tool_handler_string_name g1 [unfolded example_server_after] h
          or_else_def)
  have g2: "toolHandlers_get (server_after sample_environment example_options [greet_tool])
              (JStr ''greet'') = Some (handler greet_tool)"
    by (simp add: get_example_server builtin_tools_def greet_tool_def)
  have r2: "fst (handleRequest sample_environment
                   (server_after sample_environment example_options [greet_tool])
                   (call_tool_request (IdNum 2) ''greet'' (JObj []))) =
              result_response (IdNum 2) (ContentResult (JArr [JStr ''hello'']))"
    by (simp add: handleRequest_call_tool call_tool_request_fields)
       (simp add: call_tool_handler_string_name g2, simp add: greet_tool_def or_else_def)
  have c: "response_code (error_response (IdNum 1) (- 32000) msg_not_array) \<noteq>
             Some InvalidParams"
    by (simp add: response_code_def error_response_def InvalidParams_def)
  show ?thesis
    using h r1 r2 c by simp
qed

text \<open>
  C2, amended: for every server and every \<open>call_tool\<close> request that carries \<open>params\<close>
  and names a registered tool, the arguments are not validated against the tool's input
  schema: the handler is invoked with the supplied arguments (with an empty object when
  they are missing or falsy), also when a field the schema lists as required is absent. If
  the handler throws, the response is an ErrorResponse with the code -32000 and the
  handler's own message; if it returns, the response is a success response with its result.
  (\<open>fst (invoke h args)\<close> is the outcome of the call of the handler.)
\<close>

theorem C2_registered_tool_runs_handler:
  assumes "msg_method msg = Some ''call_tool''"
    and "msg_params msg = Some p"
    and "nm = get_prop (or_else p (JObj [])) ''name''"
    and "args = or_else (get_prop (or_else p (JObj [])) ''arguments'') (JObj [])"
    and "toolHandlers_get (server_after env options regs) nm = Some h"
  shows "fst (handleRequest env (server_after env options regs) msg) =
           (case fst (invoke h args) of
              Inl m \<Rightarrow> error_response (id_or msg ''error'') (- 32000) m
            | Inr result \<Rightarrow>
                result_response (id_or msg ''call_tool'')
                  (ContentResult
                     (if isArray result then result
                      else JArr [text_content (JSON_stringify env result)])))"
  using assms
  by (simp add: handleRequest_call_tool call_tool_handler_def Let_def
        split: sum.split prod.split)

theorem C2_registered_tool_runs_handler_witness:
  "fst (handleRequest sample_environment (server_after sample_environment example_options [])
          (call_tool_request (IdNum 1) ''sum'' (JObj []))) =
     error_response (IdNum 1) (- 32000) msg_not_array"
proof -
  let ?msg = "call_tool_request (IdNum 1) ''sum'' (JObj [])"
  let ?p = "JObj [(''name'', JStr ''sum''), (''arguments'', JObj [])]"
  have m: "msg_method ?msg = Some ''call_tool''"
    by (simp add: call_tool_request_fields)
  have p: "msg_params ?msg = Some ?p"
    by (simp add: call_tool_request_fields)
  have n: "JStr ''sum'' = get_prop (or_else ?p (JObj [])) ''name''"
    by (simp add: or_else_def)
  have a: "JObj [] = or_else (get_prop (or_else ?p (JObj [])) ''arguments'') (JObj [])"
    by (simp add: or_else_def)
  have g: "toolHandlers_get (server_after sample_environment example_options [])
             (JStr ''sum'') = Some (sum_handler sample_environment)"
    by (simp add: get_example_server builtin_tools_def)
  show ?thesis
    using C2_registered_tool_runs_handler [OF m p n a g]
    by (simp add: sum_handler_def id_or_def call_tool_request_fields)
qed

section \<open>Correlation of responses\<close>

text \<open>
  C3: for every server state and every message that carries an id, \<open>handleRequest\<close>
  returns one message with exactly that id, whichever path answers it (a missing or unknown
  method, \<open>list_tools\<close>, a \<open>call_tool\<close> that succeeds or fails); the message is
  terminal: it has either a result or an error, never both and never neither.
\<close>

theorem C3_response_carries_request_id:
  assumes "msg_id msg = Some i"
  shows "msg_id (fst (handleRequest env s msg)) = Some i \<and>
         (msg_result (fst (handleRequest env s msg)) = None) \<noteq>
         (msg_error (fst (handleRequest env s msg)) = None)"
proof -
  have ct: "msg_id (fst (call_tool_handler env s msg)) = Some i \<and>
        (msg_result (fst (call_tool_handler env s msg)) = None) \<noteq>
        (msg_error (fst (call_tool_handler env s msg)) = None)"
    using assms
    by (simp add: call_tool_handler_def Let_def id_or_def error_response_def
          result_response_def split: option.split sum.split prod.split)
  have lt: "msg_id (list_tools_handler s msg) = Some i \<and>
        (msg_result (list_tools_handler s msg) = None) \<noteq>
        (msg_error (list_tools_handler s msg) = None)"
    using assms
    by (simp add: list_tools_handler_def id_or_def error_response_def result_response_def
          split: option.split)
  have run: "msg_id (fst (run_message_handler env s h msg)) = Some i \<and>
        (msg_result (fst (run_message_handler env s h msg)) = None) \<noteq>
        (msg_error (fst (run_message_handler env s h msg)) = None)" for h
    using ct lt by (cases h) simp_all
  show ?thesis
    using assms run
    by (simp add: handleRequest_def id_or_def error_response_def split: option.split)
qed

theorem C3_response_carries_request_id_witness:
  "msg_id (fst (handleRequest sample_environment example_server
                  (call_tool_request (IdStr ''req-7'') ''sum''
                     (JObj [(''numbers'', JArr [JNum 1, JNum 2])])))) = Some (IdStr ''req-7'')"
proof -
  let ?msg = "call_tool_request (IdStr ''req-7'') ''sum''
                (JObj [(''numbers'', JArr [JNum 1, JNum 2])])"
  have i: "msg_id ?msg = Some (IdStr ''req-7'')"
    by (simp add: call_tool_request_fields)
  show ?thesis
    using C3_response_carries_request_id [OF i, of sample_environment example_server]
    by simp
qed

section \<open>Who writes to the registry\<close>









section \<open>Listing and replacing tools\<close>

lemma messageHandlers_registered:
  "messageHandlers (registerTools regs empty_server) =
     [(''call_tool'', call_tool), (''list_tools'', list_tools)]"
  by (simp add: messageHandlers_registerTools messageHandlers_empty_server)

lemma handleRequest_list_tools_registered:
  assumes "msg_method msg = Some ''list_tools''"
  shows "handleRequest env (registerTools regs empty_server) msg =
           (list_tools_handler (registerTools regs empty_server) msg,
            registerTools regs empty_server)"
  using assms by (simp add: handleRequest_def Map_get_def messageHandlers_registered)

lemma name_describe_tool: "name (describe_tool ts n) = n"
  by (simp add: describe_tool_def split: option.split)

lemma listed_tools_list_tools_handler:
  assumes "msg_method msg = Some ''list_tools''"
  shows "listed_tools (list_tools_handler s msg) =
           map (describe_tool (tools s)) (Map_keys (toolHandlers s))"
  using assms by (simp add: list_tools_handler_def listed_tools_def result_response_def)

lemma list_tools_handler_result:
  assumes "msg_method msg = Some ''list_tools''"
  shows "list_tools_handler s msg =
           result_response (id_or msg ''list_tools'')
             (ToolsResult (listed_tools (list_tools_handler s msg)))"
  using assms by (simp add: list_tools_handler_def listed_tools_def result_response_def)

lemma tools_empty_server: "tools empty_server = []"
  by (simp add: empty_server_def registerListToolsHandler_def registerCallToolHandler_def
        new_DirectServer_def)

text \<open>
  Replacing a tool: the handler map takes the new handler, but the descriptor that
  \<open>list_tools\<close> reports for the name stays the one of the first registration, because
  \<open>registerTool\<close> appends to the descriptor list and the listing takes the first match.
\<close>

lemma toolHandlers_get_registerTool:
  "toolHandlers_get (registerTool n d h sch s) (JStr n) = Some h"
  by (simp add: toolHandlers_get_def registerTool_def Map_get_def map_of_Map_set)

lemma find_append_Some:
  "find P xs = Some x \<Longrightarrow> find P (xs @ ys) = Some x"
  by (induction xs) (auto split: if_splits)

lemma describe_tool_registerTool_stale:
  assumes "find (\<lambda>t. name t = n) (tools s) = Some t"
  shows "describe_tool (tools (registerTool n d h sch s)) n = describe_tool (tools s) n"
  using assms by (simp add: describe_tool_def registerTool_def find_append_Some)

text \<open>
  C4, evaluated where it fails. The example server has the built-in \<open>sum\<close>; a second
  tool is registered under that name. No error is raised and \<open>call_tool\<close> runs the new
  handler, but \<open>list_tools\<close> still reports the description and input schema of the
  first registration, not those of the last one.
\<close>

theorem C4_replaced_tool_listed_with_first_description:
  "toolHandlers_get example_server (JStr ''sum'') = Some (sum_handler sample_environment) \<and>
   fst (handleRequest sample_environment
          (registerTool ''sum'' ''Adds numbers (second registration)''
             (Handler (\<lambda>args. (Inr (JArr [JStr ''second'']), []))) (JObj [(''type'', JStr ''object'')])
             example_server)
          (call_tool_request (IdNum 1) ''sum'' (JObj []))) =
     result_response (IdNum 1) (ContentResult (JArr [JStr ''second''])) \<and>
   listed_tools
     (fst (handleRequest sample_environment
             (registerTool ''sum'' ''Adds numbers (second registration)''
                (Handler (\<lambda>args. (Inr (JArr [JStr ''second'']), []))) (JObj [(''type'', JStr ''object'')])
                example_server)
             (list_tools_request (IdNum 2)))) =
     [\<lparr>name = ''sum'', description = sum_description, inputSchema = sum_inputSchema\<rparr>,
      \<lparr>name = ''listPresenters'', description = listPresenters_description,
       inputSchema = listPresenters_inputSchema\<rparr>] \<and>
   sum_description \<noteq> ''Adds numbers (second registration)''"
proof -
  let ?s = "server_after sample_environment example_options [second_sum]"
  have s: "registerTool ''sum'' ''Adds numbers (second registration)''
             (Handler (\<lambda>args. (Inr (JArr [JStr ''second'']), []))) (JObj [(''type'', JStr ''object'')])
             example_server = ?s"
    by (simp add: example_server_def server_after_def registerTools_def second_sum_def)
  have g0: "toolHandlers_get example_server (JStr ''sum'') =
              Some (sum_handler sample_environment)"
    by (simp add: example_server_after get_example_server builtin_tools_def)
  have g: "toolHandlers_get ?s (JStr ''sum'') = Some (handler second_sum)"
    by (simp add: get_example_server builtin_tools_def second_sum_def)
  have c: "fst (handleRequest sample_environment ?s
                  (call_tool_request (IdNum 1) ''sum'' (JObj []))) =
             result_response (IdNum 1) (ContentResult (JArr [JStr ''second'']))"
    by (simp add: handleRequest_call_tool call_tool_request_fields)
       (simp add: call_tool_handler_string_name g, simp add: second_sum_def or_else_def)
  have k: "Map_keys (toolHandlers ?s) = [''sum'', ''listPresenters'']"
    by (simp add: example_unfold keys_registerTools builtin_tools_def second_sum_def)
  have t: "tools ?s = map info_of (builtin_tools sample_environment @ [second_sum])"
    by (simp add: example_unfold tools_registerTools tools_empty_server)
  have l: "listed_tools (fst (handleRequest sample_environment ?s
                                (list_tools_request (IdNum 2)))) =
             [\<lparr>name = ''sum'', description = sum_description, inputSchema = sum_inputSchema\<rparr>,
              \<lparr>name = ''listPresenters'', description = listPresenters_description,
               inputSchema = listPresenters_inputSchema\<rparr>]"
    by (simp add: handleRequest_list_tools list_tools_request_fields
          listed_tools_list_tools_handler k t)
       (simp add: builtin_tools_def second_sum_def info_of_def describe_tool_def
          sum_description_def listPresenters_description_def or_else_def sum_inputSchema_def
          listPresenters_inputSchema_def)
  have d: "sum_description \<noteq> ''Adds numbers (second registration)''"
    by (simp add: sum_description_def)
  show ?thesis
    unfolding s using g0 c l d by simp
qed

lemma first_registrations_from_snoc:
  "first_registrations_from seen (ts @ [t]) =
     first_registrations_from seen ts @
     (if name t \<in> set seen \<union> name ` set ts then [] else [t])"
  by (induction ts arbitrary: seen) auto

lemma names_first_registrations_from:
  "name ` set (first_registrations_from seen ts) = name ` set ts - set seen"
  by (induction ts arbitrary: seen) auto

lemma first_registrations_snoc:
  "first_registrations (ts @ [t]) =
     first_registrations ts @ (if name t \<in> name ` set ts then [] else [t])"
  by (simp add: first_registrations_def first_registrations_from_snoc)

lemma names_first_registrations:
  "name ` set (first_registrations ts) = name ` set ts"
  by (simp add: first_registrations_def names_first_registrations_from)

lemma first_registrations_from_distinct:
  "distinct (map name ts) \<Longrightarrow> set seen \<inter> name ` set ts = {} \<Longrightarrow>
   first_registrations_from seen ts = ts"
  by (induction ts arbitrary: seen) auto

lemma first_registrations_distinct:
  "distinct (map name ts) \<Longrightarrow> first_registrations ts = ts"
  by (simp add: first_registrations_def first_registrations_from_distinct)

lemma keys_first_registrations:
  "Map_keys (toolHandlers (registerTools ts empty_server)) =
     map name (first_registrations ts)"
proof (induction ts rule: rev_induct)
  case Nil
  show ?case
    by (simp add: keys_registerTools first_registrations_def)
next
  case (snoc t ts)
  have "set (map fst (toolHandlers (registerTools ts empty_server))) = set (map name ts)"
    using snoc.IH names_first_registrations [of ts] by (simp add: Map_keys_def)
  then show ?case
    using snoc.IH
    by (simp add: registerTools_snoc registerTool_def Map_keys_def keys_Map_set
          first_registrations_snoc names_first_registrations)
qed

lemma describe_tool_append_found:
  assumes "n \<in> set (map name ts)"
  shows "describe_tool (ts @ us) n = describe_tool ts n"
proof -
  obtain t where "find (\<lambda>t. name t = n) ts = Some t"
    using assms by (cases "find (\<lambda>t. name t = n) ts") (auto simp: find_None_iff)
  then show ?thesis
    by (simp add: describe_tool_def find_append_Some)
qed

lemma find_append_None:
  "find P xs = None \<Longrightarrow> find P (xs @ ys) = find P ys"
  by (induction xs) (auto split: if_splits)

lemma describe_tool_new:
  assumes "name t \<notin> set (map name ts)"
  shows "describe_tool (map info_of ts @ [info_of t]) (name t) = listed_of t"
proof -
  have "\<forall>u \<in> set ts. name u \<noteq> name t"
    using assms by (auto simp: image_iff)
  then have "find (\<lambda>u. name u = name t) (map info_of ts) = None"
    by (simp add: find_None_iff info_of_def)
  then show ?thesis
    by (simp add: describe_tool_def find_append_None info_of_def listed_of_def or_else_def)
qed

lemma listing_first_registrations:
  "map (describe_tool (map info_of ts)) (map name (first_registrations ts)) =
     map listed_of (first_registrations ts)"
proof (induction ts rule: rev_induct)
  case Nil
  show ?case by (simp add: first_registrations_def)
next
  case (snoc t ts)
  have old: "map (describe_tool (map info_of ts @ [info_of t]))
               (map name (first_registrations ts)) =
             map (describe_tool (map info_of ts)) (map name (first_registrations ts))"
  proof (rule map_cong [OF refl])
    fix n assume "n \<in> set (map name (first_registrations ts))"
    then have "n \<in> set (map name (map info_of ts))"
      using names_first_registrations [of ts] by (auto simp: info_of_def)
    then show "describe_tool (map info_of ts @ [info_of t]) n =
               describe_tool (map info_of ts) n"
      by (rule describe_tool_append_found)
  qed
  show ?case
  proof (cases "name t \<in> name ` set ts")
    case True
    then show ?thesis
      using old snoc.IH by (simp add: first_registrations_snoc)
  next
    case False
    then show ?thesis
      using old snoc.IH describe_tool_new [of t ts] by (simp add: first_registrations_snoc)
  qed
qed

lemma listed_of_info_of:
  "description t \<noteq> [] \<Longrightarrow> truthy (inputSchema t) \<Longrightarrow> listed_of t = info_of t"
  by (simp add: listed_of_def info_of_def)

text \<open>
  C5: let the registry be filled by any sequence of registrations, starting from the
  empty one (every server has this form, see \<open>server_after_registrations\<close>). A
  \<open>list_tools\<close> request is answered with a success response, never an error. It lists
  one descriptor per registered name, each name where it was first registered, and the
  descriptor is the one of that first registration: its name, its description and its input
  schema (with the placeholder description for an empty description and the default schema
  for a falsy one). When no name is registered twice the list is, entry by entry, the
  sequence of registrations, and it is exactly the registered descriptors when no
  description is empty and no schema falsy. A second \<open>list_tools\<close> request, handled in
  the state the first one left, lists the same descriptors in the same order. With no
  registration the list is empty.
\<close>

theorem C5_list_tools_registration_order:
  assumes "msg_method m1 = Some ''list_tools''"
    and "msg_method m2 = Some ''list_tools''"
    and "s = registerTools regs empty_server"
    and "r1 = fst (handleRequest env s m1)"
    and "r2 = fst (handleRequest env (snd (handleRequest env s m1)) m2)"
  shows "r1 = result_response (id_or m1 ''list_tools'') (ToolsResult (listed_tools r1)) \<and>
         listed_tools r1 = map listed_of (first_registrations regs) \<and>
         map name (listed_tools r1) = rev (remdups (rev (map name regs))) \<and>
         (distinct (map name regs) \<longrightarrow>
            listed_tools r1 = map listed_of regs \<and>
            map name (listed_tools r1) = map name regs) \<and>
         (distinct (map name regs) \<and>
          (\<forall>t \<in> set regs. description t \<noteq> [] \<and> truthy (inputSchema t)) \<longrightarrow>
            listed_tools r1 = map info_of regs) \<and>
         listed_tools r2 = listed_tools r1 \<and>
         (regs = [] \<longrightarrow> listed_tools r1 = [])"
proof -
  have r1: "r1 = list_tools_handler s m1"
    using assms by (simp add: handleRequest_list_tools_registered)
  have r2: "r2 = list_tools_handler s m2"
    using assms by (simp add: handleRequest_list_tools_registered)
  have ok: "r1 = result_response (id_or m1 ''list_tools'') (ToolsResult (listed_tools r1))"
    unfolding r1 using assms(1) by (rule list_tools_handler_result)
  have "listed_tools r1 = map (describe_tool (tools s)) (Map_keys (toolHandlers s))"
    unfolding r1 using assms(1) by (rule listed_tools_list_tools_handler)
  also have "tools s = map info_of regs"
    using assms(3) by (simp add: tools_registerTools tools_empty_server)
  also have "Map_keys (toolHandlers s) = map name (first_registrations regs)"
    using assms(3) by (simp only: keys_first_registrations)
  also have "map (describe_tool (map info_of regs)) (map name (first_registrations regs)) =
               map listed_of (first_registrations regs)"
    by (rule listing_first_registrations)
  finally have full: "listed_tools r1 = map listed_of (first_registrations regs)" .
  have names: "map name (listed_tools r1) = rev (remdups (rev (map name regs)))"
    unfolding r1 using assms(1,3)
    by (simp add: listed_tools_list_tools_handler keys_registerTools comp_def
          name_describe_tool)
  have same: "listed_tools r1 = map listed_of regs \<and> map name (listed_tools r1) = map name regs"
    if "distinct (map name regs)"
    using that full names by (simp add: first_registrations_distinct distinct_remdups_id)
  have exact: "listed_tools r1 = map info_of regs"
    if "distinct (map name regs)"
      and "\<forall>t \<in> set regs. description t \<noteq> [] \<and> truthy (inputSchema t)"
    using that same by (simp add: listed_of_info_of)
  have again: "listed_tools r2 = listed_tools r1"
    unfolding r1 r2 using assms(1,2) by (simp add: listed_tools_list_tools_handler)
  have none: "regs = [] \<longrightarrow> listed_tools r1 = []"
    using full by (auto simp: first_registrations_def)
  show ?thesis
    using ok full names same exact again none by blast
qed

theorem C5_list_tools_registration_order_witness:
  "listed_tools
     (fst (handleRequest sample_environment
             (registerTools (builtin_tools sample_environment @ [greet_tool]) empty_server)
             (list_tools_request (IdNum 1)))) =
     [\<lparr>name = ''sum'', description = sum_description, inputSchema = sum_inputSchema\<rparr>,
      \<lparr>name = ''listPresenters'', description = listPresenters_description,
       inputSchema = listPresenters_inputSchema\<rparr>,
      \<lparr>name = ''greet'', description = ''Greets somebody'',
       inputSchema =
         JObj [(''type'', JStr ''object''),
               (''properties'', JObj [(''who'', JObj [(''type'', JStr ''string'')])]),
               (''required'', JArr [JStr ''who''])]\<rparr>] \<and>
   listed_tools
     (fst (handleRequest sample_environment
             (snd (handleRequest sample_environment
                     (registerTools (builtin_tools sample_environment @ [greet_tool])
                        empty_server)
                     (list_tools_request (IdNum 1))))
             (list_tools_request (IdNum 2)))) =
   listed_tools
     (fst (handleRequest sample_environment
             (registerTools (builtin_tools sample_environment @ [greet_tool]) empty_server)
             (list_tools_request (IdNum 1))))"
proof -
  let ?regs = "builtin_tools sample_environment @ [greet_tool]"
  have m: "msg_method (list_tools_request (IdNum 1)) = Some ''list_tools''"
          "msg_method (list_tools_request (IdNum 2)) = Some ''list_tools''"
    by (simp_all add: list_tools_request_fields)
  have d: "distinct (map name ?regs)"
    by (simp add: builtin_tools_def greet_tool_def)
  have t: "\<forall>t \<in> set ?regs. description t \<noteq> [] \<and> truthy (inputSchema t)"
    by (simp add: builtin_tools_def greet_tool_def sum_description_def
          listPresenters_description_def sum_inputSchema_def listPresenters_inputSchema_def)
  have i: "map info_of ?regs =
     [\<lparr>name = ''sum'', description = sum_description, inputSchema = sum_inputSchema\<rparr>,
      \<lparr>name = ''listPresenters'', description = listPresenters_description,
       inputSchema = listPresenters_inputSchema\<rparr>,
      \<lparr>name = ''greet'', description = ''Greets somebody'',
       inputSchema =
         JObj [(''type'', JStr ''object''),
               (''properties'', JObj [(''who'', JObj [(''type'', JStr ''string'')])]),
               (''required'', JArr [JStr ''who''])]\<rparr>]"
    by (simp add: builtin_tools_def greet_tool_def info_of_def)
  note c5 = C5_list_tools_registration_order
              [where regs = ?regs and env = sample_environment, OF m refl refl refl]
  have e: "listed_tools
             (fst (handleRequest sample_environment (registerTools ?regs empty_server)
                     (list_tools_request (IdNum 1)))) = map info_of ?regs"
    using c5 d t by blast
  have again: "listed_tools
     (fst (handleRequest sample_environment
             (snd (handleRequest sample_environment (registerTools ?regs empty_server)
                     (list_tools_request (IdNum 1))))
             (list_tools_request (IdNum 2)))) =
   listed_tools
     (fst (handleRequest sample_environment (registerTools ?regs empty_server)
             (list_tools_request (IdNum 1))))"
    using c5 by blast
  show ?thesis
    using e [unfolded i] again by (rule conjI)
qed

section \<open>The built-in tools\<close>

text \<open>
  C10: a server as the constructor returns it has the tools of the options, in their
  order, followed by the built-in tools \<open>sum\<close> and \<open>listPresenters\<close> in its descriptor
  list; under these two names the handler map holds the built-in handlers; and a
  \<open>list_tools\<close> request to that server yields a list that is not empty and contains
  both names.
\<close>

theorem C10_builtin_tools_after_construction:
  "tools (DirectServer env options) =
     map info_of (constructor_tools options) @
     [\<lparr>name = ''sum'', description = sum_description, inputSchema = sum_inputSchema\<rparr>,
      \<lparr>name = ''listPresenters'', description = listPresenters_description,
       inputSchema = listPresenters_inputSchema\<rparr>] \<and>
   toolHandlers_get (DirectServer env options) (JStr ''sum'') = Some (sum_handler env) \<and>
   toolHandlers_get (DirectServer env options) (JStr ''listPresenters'') =
     Some (listPresenters_handler env) \<and>
   (msg_method msg = Some ''list_tools'' \<longrightarrow>
      listed_tools (fst (handleRequest env (DirectServer env options) msg)) \<noteq> [] \<and>
      ''sum'' \<in> set (map name (listed_tools (fst (handleRequest env (DirectServer env options) msg)))) \<and>
      ''listPresenters'' \<in>
        set (map name (listed_tools (fst (handleRequest env (DirectServer env options) msg)))))"
proof -
  let ?regs = "constructor_tools options @ builtin_tools env"
  have t: "tools (DirectServer env options) =
     map info_of (constructor_tools options) @
     [\<lparr>name = ''sum'', description = sum_description, inputSchema = sum_inputSchema\<rparr>,
      \<lparr>name = ''listPresenters'', description = listPresenters_description,
       inputSchema = listPresenters_inputSchema\<rparr>]"
    by (simp add: DirectServer_registrations tools_registerTools tools_empty_server)
       (simp add: builtin_tools_def info_of_def)
  have g1: "toolHandlers_get (DirectServer env options) (JStr ''sum'') = Some (sum_handler env)"
    by (simp add: DirectServer_registrations toolHandlers_get_def get_registerTools
          builtin_tools_def)
  have g2: "toolHandlers_get (DirectServer env options) (JStr ''listPresenters'') =
              Some (listPresenters_handler env)"
    by (simp add: DirectServer_registrations toolHandlers_get_def get_registerTools
          builtin_tools_def)
  have l: "set (map name (listed_tools (fst (handleRequest env (DirectServer env options) msg))))
             = set (map name ?regs)"
    if "msg_method msg = Some ''list_tools''"
    using that
    by (simp add: DirectServer_registrations handleRequest_list_tools_registered
          listed_tools_list_tools_handler keys_registerTools comp_def name_describe_tool
          Un_commute)
  have m: "''sum'' \<in> set (map name ?regs)" "''listPresenters'' \<in> set (map name ?regs)"
    by (simp_all add: builtin_tools_def)
  have ne: "listed_tools (fst (handleRequest env (DirectServer env options) msg)) \<noteq> []"
    if "msg_method msg = Some ''list_tools''"
    using l [OF that] m(1) by auto
  show ?thesis
    using t g1 g2 l m ne by blast
qed

theorem C10_builtin_tools_after_construction_witness:
  "map name (listed_tools (fst (handleRequest sample_environment example_server
                                  (list_tools_request (IdNum 1))))) =
     [''sum'', ''listPresenters'']"
proof -
  have m: "msg_method (list_tools_request (IdNum 1)) = Some ''list_tools''"
    by (simp add: list_tools_request_fields)
  have "Map_keys (toolHandlers (server_after sample_environment example_options [])) =
          [''sum'', ''listPresenters'']"
    by (simp add: example_unfold keys_registerTools builtin_tools_def)
  then have k: "map name (listed_tools (fst (handleRequest sample_environment example_server
                                  (list_tools_request (IdNum 1))))) =
     [''sum'', ''listPresenters'']"
    by (simp add: example_server_after handleRequest_list_tools m
          listed_tools_list_tools_handler comp_def name_describe_tool)
  show ?thesis
    using C10_builtin_tools_after_construction
            [of sample_environment example_options "list_tools_request (IdNum 1)"] m k
    by simp
qed

section \<open>Closing a transport\<close>

text \<open>
  C7, as the specification states it, fails for a transport that is not connected. The
  transport a server creates has a cleanup callback; closed twice before it was ever
  started, it does not throw, but \<open>close\<close> returns at its first test both times and the
  callback is invoked not once but never.
\<close>

theorem C7_close_before_start_skips_cleanup:
  "onClose (createDirectTransport sample_environment example_server) = Some Returns \<and>
   close (createDirectTransport sample_environment example_server) new_DirectTransport =
     (Returns, new_DirectTransport) \<and>
   count_list
     (trace (snd (close (createDirectTransport sample_environment example_server)
                    (snd (close (createDirectTransport sample_environment example_server)
                            new_DirectTransport)))))
     onClose_call = 0"
  by (simp add: createDirectTransport_def close_def new_DirectTransport_def)

lemma close_not_connected: "\<not> isConnected t \<Longrightarrow> close opts t = (Returns, t)"
  by (simp add: close_def)

lemma close_disconnects: "\<not> isConnected (snd (close opts t))"
  by (simp add: close_def Let_def call_onclose_def split: option.split outcome.split)

lemma close_connected:
  assumes "isConnected t"
  shows "listeners (snd (close opts t)) = 0"
    and "fst (close opts t) = (case onClose opts of None \<Rightarrow> Returns | Some ending \<Rightarrow> ending)"
    and "count_list (trace (snd (close opts t))) onClose_call =
           count_list (trace t) onClose_call + (case onClose opts of None \<Rightarrow> 0 | Some ending \<Rightarrow> 1)"
  using assms
  by (simp_all add: close_def Let_def call_onclose_def split: option.split outcome.split)

text \<open>
  C7, amended: in every state the second of two calls of \<open>close\<close> does not throw and
  changes nothing, and after the first call the transport is not connected. For a
  transport that is Connected, the first call unregisters all listeners and invokes the
  cleanup callback when one is registered, so that across both calls it is invoked exactly
  once; the first call throws only if that callback fails. For a transport that is not
  Connected, \<open>close\<close> is a no-op and the callback is not invoked.
\<close>

theorem C7_close_twice:
  "fst (close opts (snd (close opts t))) = Returns \<and>
   snd (close opts (snd (close opts t))) = snd (close opts t) \<and>
   \<not> isConnected (snd (close opts t)) \<and>
   (isConnected t \<longrightarrow>
      listeners (snd (close opts t)) = 0 \<and>
      fst (close opts t) = (case onClose opts of None \<Rightarrow> Returns | Some ending \<Rightarrow> ending) \<and>
      count_list (trace (snd (close opts (snd (close opts t))))) onClose_call =
        count_list (trace t) onClose_call +
        (case onClose opts of None \<Rightarrow> 0 | Some ending \<Rightarrow> 1)) \<and>
   (\<not> isConnected t \<longrightarrow> close opts t = (Returns, t))"
proof -
  have second: "close opts (snd (close opts t)) = (Returns, snd (close opts t))"
    using close_disconnects by (rule close_not_connected)
  show ?thesis
    using second close_disconnects [of opts t] close_connected [of t opts]
      close_not_connected [of t opts]
    by simp
qed

theorem C7_close_twice_witness:
  "isConnected (snd (start new_DirectTransport)) \<and>
   fst (close (createDirectTransport sample_environment example_server)
          (snd (start new_DirectTransport))) = Returns \<and>
   fst (close (createDirectTransport sample_environment example_server)
          (snd (close (createDirectTransport sample_environment example_server)
                  (snd (start new_DirectTransport))))) = Returns \<and>
   count_list
     (trace (snd (close (createDirectTransport sample_environment example_server)
                    (snd (close (createDirectTransport sample_environment example_server)
                            (snd (start new_DirectTransport)))))))
     onClose_call = 1 \<and>
   listeners (snd (close (createDirectTransport sample_environment example_server)
                     (snd (start new_DirectTransport)))) = 0"
proof -
  have c: "isConnected (snd (start new_DirectTransport))"
    by (simp add: start_def new_DirectTransport_def)
  have t: "trace (snd (start new_DirectTransport)) = []"
    by (simp add: start_def new_DirectTransport_def)
  have o: "onClose (createDirectTransport sample_environment example_server) = Some Returns"
    by (simp add: createDirectTransport_def)
  show ?thesis
    using C7_close_twice [of "createDirectTransport sample_environment example_server"
                             "snd (start new_DirectTransport)"] c t o
    by (simp del: One_nat_def) metis
qed

section \<open>Errors of \<open>send\<close>\<close>

text \<open>
  C8: for every transport that is Connected and every message on which the bound
  message-handling callback fails, \<open>send\<close> returns without throwing, and the failure
  is passed to the error callback \<open>onerror\<close>: when that callback is set it is called
  once with the error and nothing else changes; when none is set there is nothing to
  deliver to and the transport is unchanged.
\<close>

theorem C8_send_failure_goes_to_onerror:
  assumes "isConnected t"
    and "handleMessage opts msg = Inl e"
  shows "fst (send opts t msg) = Returns \<and>
         (has_onerror t \<longrightarrow> snd (send opts t msg) = t\<lparr>trace := trace t @ [onerror_call e]\<rparr>) \<and>
         (\<not> has_onerror t \<longrightarrow> snd (send opts t msg) = t)"
  using assms by (simp add: send_def call_onerror_def)

theorem C8_send_failure_goes_to_onerror_witness:
  "fst (send failing_options (with_callbacks (snd (start new_DirectTransport)))
          (list_tools_request (IdNum 1))) = Returns \<and>
   trace (snd (send failing_options (with_callbacks (snd (start new_DirectTransport)))
                 (list_tools_request (IdNum 1)))) = [onerror_call ''handler failed'']"
proof -
  let ?t = "with_callbacks (snd (start new_DirectTransport))"
  have c: "isConnected ?t"
    by (simp add: with_callbacks_def start_def new_DirectTransport_def)
  have f: "handleMessage failing_options (list_tools_request (IdNum 1)) = Inl ''handler failed''"
    by (simp add: failing_options_def)
  have h: "has_onerror ?t" "trace ?t = []"
    by (simp_all add: with_callbacks_def start_def new_DirectTransport_def)
  show ?thesis
    using C8_send_failure_goes_to_onerror [OF c f] h by simp
qed

section \<open>Batch tools of the image server\<close>







end
